theory Spec2Isabelle
  imports Main "HOL-Library.Multiset" "HOL-Library.Product_Lexorder"
begin

section \<open>Personal notes: the note router and its validators\<close>

text \<open>
  The development embeds \<^verbatim>\<open>packages/api/src/router/note.ts\<close> (the tRPC note router)
  and the validators of \<^verbatim>\<open>packages/db/src/schema.ts\<close>.

  The two tables are lists of rows in insertion order. A query is read by its relational
  meaning: \<^verbatim>\<open>findFirst\<close> is the first row that satisfies the condition,
  \<^verbatim>\<open>findMany\<close> the rows that satisfy it, \<^verbatim>\<open>insert\<close> appends a row,
  \<^verbatim>\<open>update\<close> and \<^verbatim>\<open>delete\<close> act on the rows that satisfy the condition.
  The identifier of a note is a \<open>uuid\<close> column while the procedures accept any string:
  a condition on it compares uuid values and fails on a string that is not a uuid.
  What the layers below the router decide and the sources do not fix (the input syntax of
  \<open>uuid\<close>, the order of rows of equal time, the release of the query builder) is a
  parameter of the database. A lost connection and a violated constraint are outside the
  development.

  A thrown \<^verbatim>\<open>TRPCError\<close> is the left injection of a sum. A mutation returns its
  outcome together with the database after the call, so that a handler that throws before
  its write visibly leaves the database as it was.
\<close>

subsection \<open>Values sent by a client\<close>

text \<open>The input of a procedure is an unvalidated JSON value.\<close>

datatype json =
    JNull
  | JBool bool
  | JNum int
  | JStr string
  | JObj "(string \<times> json) list"

subsection \<open>Errors\<close>

text \<open>
  The codes of the errors the router can raise. \<open>BAD_REQUEST\<close> is the code tRPC gives to
  an input its validator rejects (the specification's \<open>ValidationError\<close>);
  \<open>UNAUTHORIZED\<close> is raised for a request without a session (\<open>Unauthenticated\<close>);
  \<open>INTERNAL_SERVER_ERROR\<close> is the code tRPC gives to any other exception a handler
  lets escape: an error of the database engine or of the query builder.
\<close>

datatype TRPCError =
  UNAUTHORIZED | FORBIDDEN | NOT_FOUND | BAD_REQUEST | INTERNAL_SERVER_ERROR

subsection \<open>Tables\<close>

text \<open>
  The \<^verbatim>\<open>user\<close> table, with the columns the router reads. Its declaration
  (\<^verbatim>\<open>auth-schema.ts\<close>) is generated; \<open>role\<close> is a text column.
\<close>

record user =
  user_id :: string
  user_name :: string
  user_email :: string
  user_role :: string
  user_image :: "string option"

text \<open>
  The \<^verbatim>\<open>note\<close> table of \<^verbatim>\<open>schema.ts\<close>. Timestamps are integers; \<open>note_id\<close>
  holds the text in which the engine prints the row's uuid.
\<close>

record Note =
  note_id :: string
  title :: string
  content :: string
  userId :: string
  isPublic :: bool
  createdAt :: int
  updatedAt :: "int option"

text \<open>
  \<^verbatim>\<open>ctx.db\<close>: the two tables and three parameters.
  \<^item> \<open>uuid_in\<close> is the input function of the engine's \<open>uuid\<close> type: the printed
    text of the uuid a string denotes, \<open>None\<close> for a string that is not a uuid.
  \<^item> \<open>tie_order\<close> ranks rows of equal \<open>createdAt\<close> in the result of an
    \<^verbatim>\<open>ORDER BY\<close>, which the engine leaves open.
  \<^item> \<open>update_takes_sql\<close> tells whether the release of the query builder accepts, in an
    \<^verbatim>\<open>update\<close>, the SQL value \<^verbatim>\<open>now()\<close> that the update function of the date-mode
    column \<open>updatedAt\<close> returns (\<^verbatim>\<open>schema.ts\<close>, lines 38 to 40). Releases of
    \<^verbatim>\<open>drizzle-orm\<close> up to 0.44.7 pass that value to the column's date encoder and
    throw; release 0.45.4 accepts it. The release is not pinned in the sources.
\<close>

record database =
  user_table :: "user list"
  Note_table :: "Note list"
  uuid_in :: "string \<Rightarrow> string option"
  tie_order :: "Note \<Rightarrow> nat"
  update_takes_sql :: bool

text \<open>
  What the database server supplies while it runs a statement: the value of
  \<^verbatim>\<open>now()\<close> and the identifier \<^verbatim>\<open>defaultRandom()\<close> generates.
\<close>

record env =
  now :: int
  random_uuid :: string

subsection \<open>Request context\<close>

text \<open>\<^verbatim>\<open>ctx.session.user.id\<close> is the only part of the session the router reads.\<close>

record session =
  session_user_id :: string

record ctx =
  db :: database
  session :: "session option"

text \<open>
  Modelled from the spec: \<^verbatim>\<open>protectedProcedure\<close> is declared in
  \<^verbatim>\<open>packages/api/src/trpc.ts\<close>, which is not among the sources. A call without an
  actor identity fails with \<open>Unauthenticated\<close> and never reaches a handler; otherwise the
  handler runs with the session.
\<close>

definition protectedProcedure :: "ctx \<Rightarrow> TRPCError + session" where
  "protectedProcedure c =
     (case session c of None \<Rightarrow> Inl UNAUTHORIZED | Some s \<Rightarrow> Inr s)"

subsection \<open>Validators (schema.ts)\<close>

text \<open>
  A field validator receives the value stored under a key, \<open>None\<close> when the key is
  absent (\<^verbatim>\<open>undefined\<close>), and returns the parsed value, \<open>None\<close> when it rejects.
\<close>

fun z_string :: "nat \<Rightarrow> nat option \<Rightarrow> json option \<Rightarrow> string option" where
  "z_string lo hi (Some (JStr s)) =
     (if lo \<le> length s \<and> (case hi of None \<Rightarrow> True | Some h \<Rightarrow> length s \<le> h)
      then Some s else None)"
| "z_string lo hi _ = None"

fun z_boolean :: "json option \<Rightarrow> bool option" where
  "z_boolean (Some (JBool b)) = Some b"
| "z_boolean _ = None"

fun z_optional :: "(json option \<Rightarrow> 'a option) \<Rightarrow> json option \<Rightarrow> 'a option option" where
  "z_optional p None = Some None"
| "z_optional p (Some j) = map_option Some (p (Some j))"

record CreateNote =
  in_title :: string
  in_content :: string
  in_isPublic :: "bool option"

text \<open>
  \<^verbatim>\<open>CreateNoteSchema\<close>: the insert schema of the table with \<open>id\<close>, \<open>userId\<close>,
  \<open>createdAt\<close> and \<open>updatedAt\<close> omitted. The parsed object has the three remaining keys
  only; any other key of the input is dropped.
\<close>

definition CreateNoteSchema :: "json \<Rightarrow> CreateNote option" where
  "CreateNoteSchema inp =
     (case inp of
        JObj kvs \<Rightarrow>
          (case z_string 1 (Some 256) (map_of kvs ''title'') of
             None \<Rightarrow> None
           | Some t \<Rightarrow>
               (case z_string 1 None (map_of kvs ''content'') of
                  None \<Rightarrow> None
                | Some c \<Rightarrow>
                    (case z_optional z_boolean (map_of kvs ''isPublic'') of
                       None \<Rightarrow> None
                     | Some p \<Rightarrow>
                         Some \<lparr>in_title = t, in_content = c, in_isPublic = p\<rparr>)))
      | _ \<Rightarrow> None)"

record UpdateNote =
  up_title :: "string option"
  up_content :: "string option"
  up_isPublic :: "bool option"

text \<open>\<^verbatim>\<open>UpdateNoteSchema\<close>: the same keys, each optional.\<close>

definition UpdateNoteSchema :: "json \<Rightarrow> UpdateNote option" where
  "UpdateNoteSchema inp =
     (case inp of
        JObj kvs \<Rightarrow>
          (case z_optional (z_string 1 (Some 256)) (map_of kvs ''title'') of
             None \<Rightarrow> None
           | Some t \<Rightarrow>
               (case z_optional (z_string 1 None) (map_of kvs ''content'') of
                  None \<Rightarrow> None
                | Some c \<Rightarrow>
                    (case z_optional z_boolean (map_of kvs ''isPublic'') of
                       None \<Rightarrow> None
                     | Some p \<Rightarrow>
                         Some \<lparr>up_title = t, up_content = c, up_isPublic = p\<rparr>)))
      | _ \<Rightarrow> None)"

text \<open>The input of \<open>update\<close>: \<^verbatim>\<open>z.object({ id: z.string(), data: UpdateNoteSchema })\<close>.\<close>

definition update_input :: "json \<Rightarrow> (string \<times> UpdateNote) option" where
  "update_input inp =
     (case inp of
        JObj kvs \<Rightarrow>
          (case z_string 0 None (map_of kvs ''id'') of
             None \<Rightarrow> None
           | Some i \<Rightarrow>
               (case map_of kvs ''data'' of
                  None \<Rightarrow> None
                | Some j \<Rightarrow>
                    (case UpdateNoteSchema j of
                       None \<Rightarrow> None
                     | Some d \<Rightarrow> Some (i, d))))
      | _ \<Rightarrow> None)"

text \<open>The input of \<open>byId\<close>: \<^verbatim>\<open>z.object({ id: z.string() })\<close>.\<close>

definition byId_input :: "json \<Rightarrow> string option" where
  "byId_input inp =
     (case inp of JObj kvs \<Rightarrow> z_string 0 None (map_of kvs ''id'') | _ \<Rightarrow> None)"

subsection \<open>Queries with the owner attached\<close>

text \<open>
  \<^verbatim>\<open>with: { user: { columns: {...} } }\<close> attaches to a note the selected columns of the
  row its \<open>userId\<close> references: an object with exactly the selected keys.
\<close>

fun user_column :: "user \<Rightarrow> string \<Rightarrow> json" where
  "user_column u k =
     (if k = ''id'' then JStr (user_id u)
      else if k = ''name'' then JStr (user_name u)
      else if k = ''email'' then JStr (user_email u)
      else if k = ''role'' then JStr (user_role u)
      else if k = ''image'' then (case user_image u of None \<Rightarrow> JNull | Some s \<Rightarrow> JStr s)
      else JNull)"

definition select_columns :: "string list \<Rightarrow> user \<Rightarrow> (string \<times> json) list" where
  "select_columns cols u = map (\<lambda>k. (k, user_column u k)) cols"

text \<open>A note as a relational query returns it: the row and, under \<open>user\<close>, its owner.\<close>

record NoteWithUser =
  note_row :: Note
  owner :: "(string \<times> json) list option"

definition with_user :: "string list \<Rightarrow> database \<Rightarrow> Note \<Rightarrow> NoteWithUser" where
  "with_user cols d n =
     \<lparr>note_row = n,
      owner = map_option (select_columns cols)
                (find (\<lambda>u. user_id u = userId n) (user_table d))\<rparr>"

text \<open>
  \<^verbatim>\<open>orderBy: desc(Note.createdAt)\<close>: later rows first, rows of equal time as the
  engine ranks them.
\<close>

definition orderBy_desc_createdAt :: "database \<Rightarrow> Note list \<Rightarrow> Note list" where
  "orderBy_desc_createdAt d rows = sort_key (\<lambda>n. (- createdAt n, tie_order d n)) rows"

subsection \<open>The router (note.ts)\<close>

text \<open>
  \<^verbatim>\<open>requireRole\<close>: the middleware reads the row of the session's user from the
  \<open>user\<close> table and throws unless the row exists and its role is an allowed one.
\<close>

definition requireRole :: "string list \<Rightarrow> ctx \<Rightarrow> TRPCError + (session \<times> string)" where
  "requireRole allowedRoles c =
     (case protectedProcedure c of
        Inl e \<Rightarrow> Inl e
      | Inr s \<Rightarrow>
          (case find (\<lambda>u. user_id u = session_user_id s) (user_table (db c)) of
             None \<Rightarrow> Inl FORBIDDEN
           | Some userRecord \<Rightarrow>
               if user_role userRecord \<notin> set allowedRoles then Inl FORBIDDEN
               else Inr (s, user_role userRecord)))"

definition all :: "ctx \<Rightarrow> TRPCError + NoteWithUser list" where
  "all c =
     (case protectedProcedure c of
        Inl e \<Rightarrow> Inl e
      | Inr s \<Rightarrow>
          Inr (map (with_user [''id'', ''name'', ''role'', ''image''] (db c))
                 (orderBy_desc_createdAt (db c)
                    (filter (\<lambda>n. userId n = session_user_id s \<or> isPublic n)
                       (Note_table (db c))))))"

definition myNotes :: "ctx \<Rightarrow> TRPCError + Note list" where
  "myNotes c =
     (case protectedProcedure c of
        Inl e \<Rightarrow> Inl e
      | Inr s \<Rightarrow>
          Inr (orderBy_desc_createdAt (db c)
                 (filter (\<lambda>n. userId n = session_user_id s) (Note_table (db c)))))"

definition byId :: "ctx \<Rightarrow> json \<Rightarrow> TRPCError + NoteWithUser" where
  "byId c inp =
     (case protectedProcedure c of
        Inl e \<Rightarrow> Inl e
      | Inr s \<Rightarrow>
          (case byId_input inp of
             None \<Rightarrow> Inl BAD_REQUEST
           | Some i \<Rightarrow>
               (case uuid_in (db c) i of
                  None \<Rightarrow> Inl INTERNAL_SERVER_ERROR
                | Some u \<Rightarrow>
                    (case find (\<lambda>n. note_id n = u
                                   \<and> (userId n = session_user_id s \<or> isPublic n))
                            (Note_table (db c)) of
                       None \<Rightarrow> Inl NOT_FOUND
                     | Some n \<Rightarrow>
                         Inr (with_user [''id'', ''name'', ''role'', ''image''] (db c) n)))))"

text \<open>
  \<open>create\<close> inserts \<^verbatim>\<open>{ ...input, userId: ctx.session.user.id }\<close>. The columns the
  values leave out take their defaults: a generated \<open>id\<close>, \<open>isPublic\<close> false,
  \<open>createdAt\<close> the current time; \<open>updatedAt\<close>, which has no default, takes the value of
  its update function. \<^verbatim>\<open>returning()\<close> yields the inserted rows.
\<close>

definition create :: "ctx \<Rightarrow> env \<Rightarrow> json \<Rightarrow> (TRPCError + Note list) \<times> database" where
  "create c e inp =
     (case protectedProcedure c of
        Inl err \<Rightarrow> (Inl err, db c)
      | Inr s \<Rightarrow>
          (case CreateNoteSchema inp of
             None \<Rightarrow> (Inl BAD_REQUEST, db c)
           | Some input \<Rightarrow>
               (let row = \<lparr>note_id = random_uuid e,
                           title = in_title input,
                           content = in_content input,
                           userId = session_user_id s,
                           isPublic = (case in_isPublic input of None \<Rightarrow> False | Some b \<Rightarrow> b),
                           createdAt = now e,
                           updatedAt = Some (now e)\<rparr>
                in (Inr [row], (db c)\<lparr>Note_table := Note_table (db c) @ [row]\<rparr>))))"

text \<open>
  \<^verbatim>\<open>.set(input.data)\<close>: a key of the data that is present replaces the column, an
  absent one leaves it; \<open>updatedAt\<close> takes the value of its update function. The query
  builder throws on data in which no key is present (\<^verbatim>\<open>No values to set\<close>) and,
  in the releases that do not take the SQL value of the update function, on every other
  data as well; both after the handler's own checks and before any statement is sent.
\<close>

definition set_data :: "env \<Rightarrow> UpdateNote \<Rightarrow> Note \<Rightarrow> Note" where
  "set_data e d n =
     n\<lparr>title := (case up_title d of None \<Rightarrow> title n | Some t \<Rightarrow> t),
       content := (case up_content d of None \<Rightarrow> content n | Some t \<Rightarrow> t),
       isPublic := (case up_isPublic d of None \<Rightarrow> isPublic n | Some b \<Rightarrow> b),
       updatedAt := Some (now e)\<rparr>"

definition update :: "ctx \<Rightarrow> env \<Rightarrow> json \<Rightarrow> (TRPCError + Note list) \<times> database" where
  "update c e inp =
     (case protectedProcedure c of
        Inl err \<Rightarrow> (Inl err, db c)
      | Inr s \<Rightarrow>
          (case update_input inp of
             None \<Rightarrow> (Inl BAD_REQUEST, db c)
           | Some (i, d) \<Rightarrow>
               (case uuid_in (db c) i of
                  None \<Rightarrow> (Inl INTERNAL_SERVER_ERROR, db c)
                | Some u \<Rightarrow>
                    (case find (\<lambda>n. note_id n = u) (Note_table (db c)) of
                       None \<Rightarrow> (Inl NOT_FOUND, db c)
                     | Some n \<Rightarrow>
                         if userId n \<noteq> session_user_id s then (Inl FORBIDDEN, db c)
                         else if up_title d = None \<and> up_content d = None
                                 \<and> up_isPublic d = None
                         then (Inl INTERNAL_SERVER_ERROR, db c)
                         else if \<not> update_takes_sql (db c)
                         then (Inl INTERNAL_SERVER_ERROR, db c)
                         else
                           (Inr (map (set_data e d)
                                   (filter (\<lambda>n. note_id n = u) (Note_table (db c)))),
                            (db c)\<lparr>Note_table :=
                               map (\<lambda>n. if note_id n = u then set_data e d n else n)
                                 (Note_table (db c))\<rparr>)))))"

text \<open>\<open>delete\<close> and \<open>adminDelete\<close> take the identifier itself: \<^verbatim>\<open>z.string()\<close>.\<close>

definition delete :: "ctx \<Rightarrow> json \<Rightarrow> (TRPCError + unit) \<times> database" where
  "delete c inp =
     (case protectedProcedure c of
        Inl err \<Rightarrow> (Inl err, db c)
      | Inr s \<Rightarrow>
          (case z_string 0 None (Some inp) of
             None \<Rightarrow> (Inl BAD_REQUEST, db c)
           | Some i \<Rightarrow>
               (case uuid_in (db c) i of
                  None \<Rightarrow> (Inl INTERNAL_SERVER_ERROR, db c)
                | Some u \<Rightarrow>
                    (case find (\<lambda>n. note_id n = u) (Note_table (db c)) of
                       None \<Rightarrow> (Inl NOT_FOUND, db c)
                     | Some n \<Rightarrow>
                         if userId n \<noteq> session_user_id s then (Inl FORBIDDEN, db c)
                         else
                           (Inr (),
                            (db c)\<lparr>Note_table :=
                               filter (\<lambda>n. note_id n \<noteq> u) (Note_table (db c))\<rparr>)))))"

definition adminAll :: "ctx \<Rightarrow> TRPCError + NoteWithUser list" where
  "adminAll c =
     (case requireRole [''admin''] c of
        Inl e \<Rightarrow> Inl e
      | Inr _ \<Rightarrow>
          Inr (map (with_user [''id'', ''name'', ''email'', ''role'', ''image''] (db c))
                 (orderBy_desc_createdAt (db c) (Note_table (db c)))))"

definition adminDelete :: "ctx \<Rightarrow> json \<Rightarrow> (TRPCError + unit) \<times> database" where
  "adminDelete c inp =
     (case requireRole [''admin''] c of
        Inl err \<Rightarrow> (Inl err, db c)
      | Inr _ \<Rightarrow>
          (case z_string 0 None (Some inp) of
             None \<Rightarrow> (Inl BAD_REQUEST, db c)
           | Some i \<Rightarrow>
               (case uuid_in (db c) i of
                  None \<Rightarrow> (Inl INTERNAL_SERVER_ERROR, db c)
                | Some u \<Rightarrow>
                    (case find (\<lambda>n. note_id n = u) (Note_table (db c)) of
                       None \<Rightarrow> (Inl NOT_FOUND, db c)
                     | Some n \<Rightarrow>
                         (Inr (),
                          (db c)\<lparr>Note_table :=
                             filter (\<lambda>n. note_id n \<noteq> u) (Note_table (db c))\<rparr>)))))"

subsection \<open>A sample database\<close>

text \<open>
  The input syntax of PostgreSQL's \<open>uuid\<close>: sixteen bytes of two hexadecimal digits each,
  in either case, an optional hyphen after any group of four digits but the last, the
  whole optionally in braces. The printed text is in lower case, hyphenated 8-4-4-4-12.
\<close>

definition is_xdigit :: "char \<Rightarrow> bool" where
  "is_xdigit ch = (ch \<in> set ''0123456789abcdefABCDEF'')"

definition to_lower_hex :: "char \<Rightarrow> char" where
  "to_lower_hex ch =
     (case map_of (zip ''ABCDEF'' ''abcdef'') ch of None \<Rightarrow> ch | Some l \<Rightarrow> l)"

fun pg_uuid_bytes :: "nat \<Rightarrow> string \<Rightarrow> (string \<times> string) option" where
  "pg_uuid_bytes 0 src = Some ([], src)"
| "pg_uuid_bytes (Suc k) (a # b # src) =
     (if is_xdigit a \<and> is_xdigit b then
        (case pg_uuid_bytes k
                (case src of
                   [] \<Rightarrow> src
                 | ch # rest \<Rightarrow> if ch = CHR ''-'' \<and> even k \<and> 0 < k then rest else src) of
           None \<Rightarrow> None
         | Some (digits, rest) \<Rightarrow> Some (to_lower_hex a # to_lower_hex b # digits, rest))
      else None)"
| "pg_uuid_bytes (Suc k) src = None"

definition pg_uuid_out :: "string \<Rightarrow> string" where
  "pg_uuid_out ds =
     take 8 ds @ ''-'' @ take 4 (drop 8 ds) @ ''-'' @ take 4 (drop 12 ds) @ ''-''
       @ take 4 (drop 16 ds) @ ''-'' @ drop 20 ds"

definition pg_uuid_in :: "string \<Rightarrow> string option" where
  "pg_uuid_in s =
     (let braces = (case s of [] \<Rightarrow> False | ch # _ \<Rightarrow> ch = CHR ''{'') in
      case pg_uuid_bytes 16 (if braces then tl s else s) of
        None \<Rightarrow> None
      | Some (digits, rest) \<Rightarrow>
          if rest = (if braces then ''}'' else []) then Some (pg_uuid_out digits) else None)"

text \<open>
  Two members and an administrator; Alice owns a private and a public note, Bob a private
  one. The theorems below are instantiated on it.
\<close>

definition alice :: user where
  "alice = \<lparr>user_id = ''u-alice'', user_name = ''Alice'', user_email = ''alice@example.com'',
            user_role = ''user'', user_image = None\<rparr>"

definition bob :: user where
  "bob = \<lparr>user_id = ''u-bob'', user_name = ''Bob'', user_email = ''bob@example.com'',
          user_role = ''user'', user_image = Some ''bob.png''\<rparr>"

definition carol :: user where
  "carol = \<lparr>user_id = ''u-carol'', user_name = ''Carol'', user_email = ''carol@example.com'',
            user_role = ''admin'', user_image = None\<rparr>"

definition id1 :: string where
  "id1 = ''a0eebc99-9c0b-4ef8-bb6d-6bb9bd380a11''"

definition id2 :: string where
  "id2 = ''a0eebc99-9c0b-4ef8-bb6d-6bb9bd380a12''"

definition id3 :: string where
  "id3 = ''a0eebc99-9c0b-4ef8-bb6d-6bb9bd380a13''"

text \<open>The identifier the engine generates next, and one that no note has.\<close>

definition id4 :: string where
  "id4 = ''a0eebc99-9c0b-4ef8-bb6d-6bb9bd380a14''"

definition id9 :: string where
  "id9 = ''a0eebc99-9c0b-4ef8-bb6d-6bb9bd380a19''"

text \<open>The first identifier in upper case.\<close>

definition ID1 :: string where
  "ID1 = ''A0EEBC99-9C0B-4EF8-BB6D-6BB9BD380A11''"

definition note_a1 :: Note where
  "note_a1 = \<lparr>note_id = id1, title = ''Diary'', content = ''private'', userId = ''u-alice'',
              isPublic = False, createdAt = 10, updatedAt = Some 10\<rparr>"

definition note_a2 :: Note where
  "note_a2 = \<lparr>note_id = id2, title = ''Public Post'', content = ''hi'', userId = ''u-alice'',
              isPublic = True, createdAt = 30, updatedAt = Some 30\<rparr>"

definition note_b1 :: Note where
  "note_b1 = \<lparr>note_id = id3, title = ''Todo'', content = ''milk'', userId = ''u-bob'',
              isPublic = False, createdAt = 20, updatedAt = Some 20\<rparr>"

text \<open>
  The sample database runs a release of the query builder that takes the SQL value of the
  update function, as the repository's testing guide reports of an edit (Test 3: the note
  is saved with its new title).
\<close>

definition sample_db :: database where
  "sample_db = \<lparr>user_table = [alice, bob, carol], Note_table = [note_a1, note_a2, note_b1],
                 uuid_in = pg_uuid_in, tie_order = (\<lambda>n. 0), update_takes_sql = True\<rparr>"

text \<open>A request on the sample database by the user with the given identifier.\<close>

definition as_user :: "string \<Rightarrow> ctx" where
  "as_user uid = \<lparr>db = sample_db, session = Some \<lparr>session_user_id = uid\<rparr>\<rparr>"

definition sample_env :: env where
  "sample_env = \<lparr>now = 40, random_uuid = id4\<rparr>"

text \<open>
  The same request after Carol has been demoted in the user table: the session is the one
  she held as an administrator.
\<close>

definition demoted :: "ctx \<Rightarrow> ctx" where
  "demoted c =
     c\<lparr>db := (db c)\<lparr>user_table := [alice, bob, carol\<lparr>user_role := ''user''\<rparr>]\<rparr>\<rparr>"

lemmas sample_defs =
  alice_def bob_def carol_def note_a1_def note_a2_def note_b1_def sample_db_def as_user_def
  sample_env_def

section \<open>Properties\<close>

subsection \<open>The sample identifiers\<close>

lemma sample_uuid_in:
  "pg_uuid_in id1 = Some id1" "pg_uuid_in id2 = Some id2" "pg_uuid_in id3 = Some id3"
  "pg_uuid_in id4 = Some id4" "pg_uuid_in id9 = Some id9" "pg_uuid_in ID1 = Some id1"
  "pg_uuid_in ''missing'' = None"
  by (code_simp+)

lemma sample_ids_differ:
  "id1 \<noteq> id2" "id1 \<noteq> id3" "id1 \<noteq> id4" "id1 \<noteq> id9" "id2 \<noteq> id3" "id2 \<noteq> id4"
  "id2 \<noteq> id9" "id3 \<noteq> id4" "id3 \<noteq> id9" "id4 \<noteq> id9"
  "id2 \<noteq> id1" "id3 \<noteq> id1" "id4 \<noteq> id1" "id9 \<noteq> id1" "id3 \<noteq> id2" "id4 \<noteq> id2"
  "id9 \<noteq> id2" "id4 \<noteq> id3" "id9 \<noteq> id3" "id9 \<noteq> id4" "ID1 \<noteq> id1" "id1 \<noteq> ID1"
  by (simp_all add: id1_def id2_def id3_def id4_def id9_def ID1_def)

lemmas sample_ids = sample_uuid_in sample_ids_differ

subsection \<open>Auxiliary facts\<close>

lemma find_primary_key:
  "distinct (map note_id ns) \<Longrightarrow> N \<in> set ns \<Longrightarrow>
   find (\<lambda>n. note_id n = note_id N) ns = Some N"
proof (induction ns)
  case Nil
  then show ?case by simp
next
  case (Cons a ns)
  show ?case
  proof (cases "a = N")
    case True
    then show ?thesis by simp
  next
    case False
    with Cons.prems have later: "N \<in> set ns" by simp
    with Cons.prems have "note_id a \<noteq> note_id N" by force
    with Cons later show ?thesis by simp
  qed
qed

lemma update_input_obj:
  "map_of kvs ''id'' = Some (JStr i) \<Longrightarrow> map_of kvs ''data'' = Some partialFields \<Longrightarrow>
   UpdateNoteSchema partialFields = Some d \<Longrightarrow> update_input (JObj kvs) = Some (i, d)"
  by (simp add: update_input_def)

lemma mset_orderBy_desc_createdAt:
  "mset (orderBy_desc_createdAt d rows) = mset rows"
  by (simp add: orderBy_desc_createdAt_def)

lemma newest_first_orderBy_desc_createdAt:
  "sorted_wrt (\<lambda>a b. createdAt b \<le> createdAt a) (orderBy_desc_createdAt d rows)"
proof -
  let ?key = "\<lambda>n. (- createdAt n, tie_order d n)"
  have "sorted (map ?key (sort_key ?key rows))"
    by (rule sorted_sort_key)
  then have "sorted_wrt (\<lambda>a b. ?key a \<le> ?key b) (sort_key ?key rows)"
    by (simp only: sorted_map)
  then have "sorted_wrt (\<lambda>a b. createdAt b \<le> createdAt a) (sort_key ?key rows)"
    by (rule sorted_wrt_mono_rel [rotated]) (auto simp: less_eq_prod_def)
  then show ?thesis
    by (simp only: orderBy_desc_createdAt_def)
qed

lemma note_row_with_user: "map note_row (map (with_user cols d) rows) = rows"
  by (induction rows) (simp_all add: with_user_def)

lemma requireRole_admin:
  assumes "session c = Some s"
  shows "requireRole [''admin''] c =
     (if map_option user_role (find (\<lambda>u. user_id u = session_user_id s) (user_table (db c)))
          = Some ''admin''
      then Inr (s, ''admin'') else Inl FORBIDDEN)"
  using assms
  by (cases "find (\<lambda>u. user_id u = session_user_id s) (user_table (db c))")
     (auto simp: requireRole_def protectedProcedure_def)

subsection \<open>Writes by a non-owner\<close>

text \<open>
  C1 (as amended). Let \<open>N\<close> be a note of the table (whose \<open>id\<close> column is a primary key),
  let the actor be authenticated and not the owner of \<open>N\<close>, and let \<open>i\<close> be a spelling of
  the identifier of \<open>N\<close> (the stored text is one). Then \<open>delete\<close> of \<open>i\<close> fails with
  \<open>FORBIDDEN\<close>, and so does every \<open>update\<close> of \<open>i\<close> whose fields pass
  \<open>UpdateNoteSchema\<close>; the database is as before. The user table is not consulted, so
  the actor's role, \<open>admin\<close> included, makes no difference. The restriction to fields that
  pass the schema is needed: the validator runs before the handler, and an update with
  invalid fields fails with \<open>BAD_REQUEST\<close> whoever owns the note.
\<close>

theorem non_owner_update_delete_forbidden:
  assumes actor: "session c = Some s"
    and pk: "distinct (map note_id (Note_table (db c)))"
    and exists: "N \<in> set (Note_table (db c))"
    and not_owner: "userId N \<noteq> session_user_id s"
    and denotes: "uuid_in (db c) i = Some (note_id N)"
    and id_key: "map_of kvs ''id'' = Some (JStr i)"
    and data_key: "map_of kvs ''data'' = Some partialFields"
    and valid: "UpdateNoteSchema partialFields = Some d"
  shows "update c e (JObj kvs) = (Inl FORBIDDEN, db c)
       \<and> delete c (JStr i) = (Inl FORBIDDEN, db c)"
proof -
  have found: "find (\<lambda>n. note_id n = note_id N) (Note_table (db c)) = Some N"
    using pk exists by (rule find_primary_key)
  have parsed: "update_input (JObj kvs) = Some (i, d)"
    using id_key data_key valid by (rule update_input_obj)
  have "update c e (JObj kvs) = (Inl FORBIDDEN, db c)"
    using actor found parsed denotes not_owner by (simp add: update_def protectedProcedure_def)
  moreover have "delete c (JStr i) = (Inl FORBIDDEN, db c)"
    using actor found denotes not_owner by (simp add: delete_def protectedProcedure_def)
  ultimately show ?thesis by simp
qed

text \<open>
  On the sample database: Bob (a member) and Carol (an administrator) are both refused
  when they write to Alice's private note, addressed by its stored identifier.
\<close>

theorem non_owner_update_delete_forbidden_witness:
  "update (as_user ''u-bob'') sample_env
      (JObj [(''id'', JStr (note_id note_a1)), (''data'', JObj [(''title'', JStr ''x'')])])
     = (Inl FORBIDDEN, sample_db)
   \<and> delete (as_user ''u-bob'') (JStr (note_id note_a1)) = (Inl FORBIDDEN, sample_db)
   \<and> update (as_user ''u-carol'') sample_env
      (JObj [(''id'', JStr (note_id note_a1)), (''data'', JObj [(''title'', JStr ''x'')])])
     = (Inl FORBIDDEN, sample_db)
   \<and> delete (as_user ''u-carol'') (JStr (note_id note_a1)) = (Inl FORBIDDEN, sample_db)"
proof -
  let ?kvs = "[(''id'', JStr (note_id note_a1)), (''data'', JObj [(''title'', JStr ''x'')])]"
  let ?d = "\<lparr>up_title = Some ''x'', up_content = None, up_isPublic = None\<rparr>"
  have v: "UpdateNoteSchema (JObj [(''title'', JStr ''x'')]) = Some ?d"
    by (simp add: UpdateNoteSchema_def)
  have member:
    "update (as_user ''u-bob'') sample_env (JObj ?kvs) = (Inl FORBIDDEN, db (as_user ''u-bob''))
     \<and> delete (as_user ''u-bob'') (JStr (note_id note_a1))
         = (Inl FORBIDDEN, db (as_user ''u-bob''))"
    by (rule non_owner_update_delete_forbidden
          [where s = "\<lparr>session_user_id = ''u-bob''\<rparr>" and N = note_a1 and d = ?d
             and partialFields = "JObj [(''title'', JStr ''x'')]"])
       (simp_all add: sample_defs sample_ids v)
  have admin:
    "update (as_user ''u-carol'') sample_env (JObj ?kvs)
        = (Inl FORBIDDEN, db (as_user ''u-carol''))
     \<and> delete (as_user ''u-carol'') (JStr (note_id note_a1))
         = (Inl FORBIDDEN, db (as_user ''u-carol''))"
    by (rule non_owner_update_delete_forbidden
          [where s = "\<lparr>session_user_id = ''u-carol''\<rparr>" and N = note_a1 and d = ?d
             and partialFields = "JObj [(''title'', JStr ''x'')]"])
       (simp_all add: sample_defs sample_ids v)
  have d: "db (as_user ''u-bob'') = sample_db" "db (as_user ''u-carol'') = sample_db"
    by (simp_all add: as_user_def)
  from member admin show ?thesis by (simp only: d simp_thms)
qed

text \<open>
  C1 as first stated fails: Bob, a member who does not own Alice's note, updates it with an
  empty title. The call fails with \<open>BAD_REQUEST\<close>, not with \<open>FORBIDDEN\<close>.
\<close>

theorem update_invalid_fields_counterexample:
  "session (as_user ''u-bob'') = Some \<lparr>session_user_id = ''u-bob''\<rparr>
   \<and> note_a1 \<in> set (Note_table (db (as_user ''u-bob'')))
   \<and> userId note_a1 \<noteq> ''u-bob''
   \<and> bob \<in> set (user_table (db (as_user ''u-bob'')))
   \<and> user_id bob = ''u-bob''
   \<and> user_role bob \<noteq> ''admin''
   \<and> update (as_user ''u-bob'') sample_env
        (JObj [(''id'', JStr (note_id note_a1)), (''data'', JObj [(''title'', JStr '''')])])
      = (Inl BAD_REQUEST, sample_db)
   \<and> fst (update (as_user ''u-bob'') sample_env
        (JObj [(''id'', JStr (note_id note_a1)), (''data'', JObj [(''title'', JStr '''')])]))
      \<noteq> Inl FORBIDDEN"
  by (simp add: sample_defs update_def protectedProcedure_def update_input_def
        UpdateNoteSchema_def)

subsection \<open>The owner of a created note\<close>

text \<open>
  C2. For an authenticated actor, a \<open>create\<close> that succeeds appends exactly one note, and
  the \<open>userId\<close> of that note is the actor's identifier, whatever the input holds. A key
  of the input other than \<open>title\<close>, \<open>content\<close> and \<open>isPublic\<close> (an owner field, for
  one) does not reach the handler: the call with it and the call without it are the same.
\<close>

theorem create_owner_is_actor:
  assumes actor: "session c = Some s"
  shows "(create c e inp = (Inr rows, d') \<longrightarrow>
            (\<exists>n. rows = [n] \<and> userId n = session_user_id s
                 \<and> Note_table d' = Note_table (db c) @ [n]
                 \<and> user_table d' = user_table (db c)))
       \<and> (k \<notin> {''title'', ''content'', ''isPublic''} \<longrightarrow>
            create c e (JObj ((k, v) # kvs)) = create c e (JObj kvs))"
proof (intro conjI impI)
  assume ok: "create c e inp = (Inr rows, d')"
  then obtain input where "CreateNoteSchema inp = Some input"
    using actor by (cases "CreateNoteSchema inp") (simp_all add: create_def protectedProcedure_def)
  with ok actor show "\<exists>n. rows = [n] \<and> userId n = session_user_id s
                 \<and> Note_table d' = Note_table (db c) @ [n]
                 \<and> user_table d' = user_table (db c)"
    by (auto simp: create_def protectedProcedure_def Let_def)
next
  assume other: "k \<notin> {''title'', ''content'', ''isPublic''}"
  from other have keys:
    "map_of ((k, v) # kvs) ''title'' = map_of kvs ''title''"
    "map_of ((k, v) # kvs) ''content'' = map_of kvs ''content''"
    "map_of ((k, v) # kvs) ''isPublic'' = map_of kvs ''isPublic''"
    by auto
  have same: "CreateNoteSchema (JObj ((k, v) # kvs)) = CreateNoteSchema (JObj kvs)"
    by (simp only: CreateNoteSchema_def json.case keys)
  show "create c e (JObj ((k, v) # kvs)) = create c e (JObj kvs)"
    unfolding create_def same by (rule refl)
qed

text \<open>Bob sends a note that names Alice as its owner; the stored note is Bob's.\<close>

theorem create_owner_is_actor_witness:
  "create (as_user ''u-bob'') sample_env
     (JObj [(''userId'', JStr ''u-alice''), (''title'', JStr ''T''), (''content'', JStr ''c'')])
   = (Inr [\<lparr>note_id = id4, title = ''T'', content = ''c'', userId = ''u-bob'',
             isPublic = False, createdAt = 40, updatedAt = Some 40\<rparr>],
      sample_db\<lparr>Note_table := Note_table sample_db @
        [\<lparr>note_id = id4, title = ''T'', content = ''c'', userId = ''u-bob'',
             isPublic = False, createdAt = 40, updatedAt = Some 40\<rparr>]\<rparr>)
   \<and> create (as_user ''u-bob'') sample_env
       (JObj [(''userId'', JStr ''u-alice''), (''title'', JStr ''T''), (''content'', JStr ''c'')])
     = create (as_user ''u-bob'') sample_env
       (JObj [(''title'', JStr ''T''), (''content'', JStr ''c'')])
   \<and> (\<exists>n. [\<lparr>note_id = id4, title = ''T'', content = ''c'', userId = ''u-bob'',
             isPublic = False, createdAt = 40, updatedAt = Some 40\<rparr>] = [n]
          \<and> userId n = ''u-bob'')"
proof -
  let ?inp = "JObj [(''userId'', JStr ''u-alice''), (''title'', JStr ''T''), (''content'', JStr ''c'')]"
  let ?row = "\<lparr>note_id = id4, title = ''T'', content = ''c'', userId = ''u-bob'',
             isPublic = False, createdAt = 40, updatedAt = Some 40\<rparr>"
  have run: "create (as_user ''u-bob'') sample_env ?inp
     = (Inr [?row], sample_db\<lparr>Note_table := Note_table sample_db @ [?row]\<rparr>)"
    by (simp add: create_def protectedProcedure_def CreateNoteSchema_def sample_defs Let_def)
  have s: "session (as_user ''u-bob'') = Some \<lparr>session_user_id = ''u-bob''\<rparr>"
    by (simp add: as_user_def)
  note inst = create_owner_is_actor [OF s, of sample_env ?inp "[?row]"
      "sample_db\<lparr>Note_table := Note_table sample_db @ [?row]\<rparr>"
      "''userId''" "JStr ''u-alice''" "[(''title'', JStr ''T''), (''content'', JStr ''c'')]"]
  from inst have ignored: "create (as_user ''u-bob'') sample_env ?inp
     = create (as_user ''u-bob'') sample_env
         (JObj [(''title'', JStr ''T''), (''content'', JStr ''c'')])"
    by simp
  from inst run have owned: "\<exists>n. [?row] = [n] \<and> userId n = ''u-bob''"
    by simp
  from run ignored owned show ?thesis by (simp only: simp_thms)
qed

subsection \<open>The role is read on each privileged call\<close>

text \<open>
  C3. \<open>adminAll\<close> and \<open>adminDelete\<close> decide on the role stored in the user table of the
  database the call runs on. Whenever that table holds no row for the actor, or a row whose
  role is not \<open>admin\<close>, both fail with \<open>FORBIDDEN\<close>, whatever the session holds and
  whatever an earlier call returned; \<open>adminDelete\<close> leaves the database as it was.
\<close>

theorem privileged_role_read_on_each_call:
  assumes actor: "session c = Some s"
    and not_admin: "map_option user_role
                      (find (\<lambda>u. user_id u = session_user_id s) (user_table (db c)))
                    \<noteq> Some ''admin''"
  shows "adminAll c = Inl FORBIDDEN \<and> adminDelete c inp = (Inl FORBIDDEN, db c)"
proof -
  from not_admin have "requireRole [''admin''] c = Inl FORBIDDEN"
    by (simp only: requireRole_admin [OF actor] if_False)
  then show ?thesis by (simp add: adminAll_def adminDelete_def)
qed

text \<open>
  Carol lists all notes as an administrator; once her row says \<open>user\<close>, the next call
  with the same session is refused. So is Bob's.
\<close>

theorem privileged_role_read_on_each_call_witness:
  "(\<exists>rows. adminAll (as_user ''u-carol'') = Inr rows)
   \<and> session (demoted (as_user ''u-carol'')) = session (as_user ''u-carol'')
   \<and> adminAll (demoted (as_user ''u-carol'')) = Inl FORBIDDEN
   \<and> adminDelete (demoted (as_user ''u-carol'')) (JStr id1)
       = (Inl FORBIDDEN, db (demoted (as_user ''u-carol'')))
   \<and> adminAll (as_user ''u-bob'') = Inl FORBIDDEN"
proof -
  have before: "\<exists>rows. adminAll (as_user ''u-carol'') = Inr rows"
    by (simp add: adminAll_def requireRole_def protectedProcedure_def sample_defs)
  have after: "adminAll (demoted (as_user ''u-carol'')) = Inl FORBIDDEN
     \<and> adminDelete (demoted (as_user ''u-carol'')) (JStr id1)
       = (Inl FORBIDDEN, db (demoted (as_user ''u-carol'')))"
    by (rule privileged_role_read_on_each_call [where s = "\<lparr>session_user_id = ''u-carol''\<rparr>"])
       (simp_all add: demoted_def sample_defs)
  have member: "adminAll (as_user ''u-bob'') = Inl FORBIDDEN
     \<and> adminDelete (as_user ''u-bob'') (JStr id1) = (Inl FORBIDDEN, db (as_user ''u-bob''))"
    by (rule privileged_role_read_on_each_call [where s = "\<lparr>session_user_id = ''u-bob''\<rparr>"])
       (simp_all add: sample_defs)
  from before after member show ?thesis by (simp add: demoted_def)
qed

subsection \<open>Reading a note by its identifier\<close>

text \<open>
  C4. For an authenticated actor and a string \<open>i\<close>, \<open>byId\<close> succeeds exactly when \<open>i\<close>
  denotes a uuid and the table has a note with that identifier that the actor owns or that
  is public, and it returns such a note. When \<open>i\<close> denotes a uuid and no note with that
  identifier is owned by the actor or public (in particular when one exists but is private
  and someone else's), the call fails with \<open>NOT_FOUND\<close>. It never fails with
  \<open>FORBIDDEN\<close>. (A string that is no uuid is an error of the engine.)
\<close>

theorem byId_visible_or_not_found:
  assumes actor: "session c = Some s"
    and id_key: "map_of kvs ''id'' = Some (JStr i)"
  shows "((\<exists>r. byId c (JObj kvs) = Inr r) \<longleftrightarrow>
            (\<exists>u. uuid_in (db c) i = Some u
               \<and> (\<exists>n \<in> set (Note_table (db c)).
                     note_id n = u \<and> (userId n = session_user_id s \<or> isPublic n))))
       \<and> (\<forall>r. byId c (JObj kvs) = Inr r \<longrightarrow>
            note_row r \<in> set (Note_table (db c))
            \<and> uuid_in (db c) i = Some (note_id (note_row r))
            \<and> (userId (note_row r) = session_user_id s \<or> isPublic (note_row r)))
       \<and> (\<forall>u. uuid_in (db c) i = Some u
              \<and> (\<forall>n \<in> set (Note_table (db c)).
                    note_id n = u \<longrightarrow> userId n \<noteq> session_user_id s \<and> \<not> isPublic n) \<longrightarrow>
            byId c (JObj kvs) = Inl NOT_FOUND)
       \<and> (uuid_in (db c) i = None \<longrightarrow> byId c (JObj kvs) = Inl INTERNAL_SERVER_ERROR)
       \<and> byId c (JObj kvs) \<noteq> Inl FORBIDDEN"
proof -
  have parsed: "byId_input (JObj kvs) = Some i"
    using id_key by (simp add: byId_input_def)
  show ?thesis
  proof (cases "uuid_in (db c) i")
    case None
    then have "byId c (JObj kvs) = Inl INTERNAL_SERVER_ERROR"
      using actor parsed by (simp add: byId_def protectedProcedure_def)
    with None show ?thesis by simp
  next
    case (Some u)
    let ?visible = "\<lambda>n. note_id n = u \<and> (userId n = session_user_id s \<or> isPublic n)"
    show ?thesis
    proof (cases "find ?visible (Note_table (db c))")
      case None
      then have none: "\<not> (\<exists>n. n \<in> set (Note_table (db c)) \<and> ?visible n)"
        by (auto simp: find_None_iff)
      have "byId c (JObj kvs) = Inl NOT_FOUND"
        using actor parsed Some None by (simp add: byId_def protectedProcedure_def)
      with none Some show ?thesis by auto
    next
      case found: (Some n)
      then have n: "n \<in> set (Note_table (db c))" "?visible n"
        by (auto simp: find_Some_iff)
      have "byId c (JObj kvs) = Inr (with_user [''id'', ''name'', ''role'', ''image''] (db c) n)"
        using actor parsed Some found by (simp add: byId_def protectedProcedure_def)
      with n Some show ?thesis by (auto simp: with_user_def)
    qed
  qed
qed

text \<open>
  Bob cannot tell Alice's private note from a uuid that no note has; he reads her public
  note, and Alice reads her private one, also when she spells its identifier in upper
  case.
\<close>

theorem byId_visible_or_not_found_witness:
  "byId (as_user ''u-bob'') (JObj [(''id'', JStr id1)]) = Inl NOT_FOUND
   \<and> byId (as_user ''u-bob'') (JObj [(''id'', JStr id9)]) = Inl NOT_FOUND
   \<and> (\<exists>r. byId (as_user ''u-bob'') (JObj [(''id'', JStr id2)]) = Inr r)
   \<and> (\<exists>r. byId (as_user ''u-alice'') (JObj [(''id'', JStr id1)]) = Inr r)
   \<and> (\<exists>r. byId (as_user ''u-alice'') (JObj [(''id'', JStr ID1)]) = Inr r)
   \<and> byId (as_user ''u-bob'') (JObj [(''id'', JStr ''missing'')]) = Inl INTERNAL_SERVER_ERROR"
proof -
  have s: "session (as_user ''u-bob'') = Some \<lparr>session_user_id = ''u-bob''\<rparr>"
    by (simp add: as_user_def)
  have a: "session (as_user ''u-alice'') = Some \<lparr>session_user_id = ''u-alice''\<rparr>"
    by (simp add: as_user_def)
  have 1: "byId (as_user ''u-bob'') (JObj [(''id'', JStr id1)]) = Inl NOT_FOUND"
    using byId_visible_or_not_found [OF s, of "[(''id'', JStr id1)]" id1]
    by (simp add: sample_defs sample_ids)
  have 2: "byId (as_user ''u-bob'') (JObj [(''id'', JStr id9)]) = Inl NOT_FOUND"
    using byId_visible_or_not_found [OF s, of "[(''id'', JStr id9)]" id9]
    by (simp add: sample_defs sample_ids)
  have 3: "\<exists>r. byId (as_user ''u-bob'') (JObj [(''id'', JStr id2)]) = Inr r"
    using byId_visible_or_not_found [OF s, of "[(''id'', JStr id2)]" id2]
    by (simp add: sample_defs sample_ids)
  have 4: "\<exists>r. byId (as_user ''u-alice'') (JObj [(''id'', JStr id1)]) = Inr r"
    using byId_visible_or_not_found [OF a, of "[(''id'', JStr id1)]" id1]
    by (simp add: sample_defs sample_ids)
  have 5: "\<exists>r. byId (as_user ''u-alice'') (JObj [(''id'', JStr ID1)]) = Inr r"
    using byId_visible_or_not_found [OF a, of "[(''id'', JStr ID1)]" ID1]
    by (simp add: sample_defs sample_ids)
  have 6: "byId (as_user ''u-bob'') (JObj [(''id'', JStr ''missing'')])
             = Inl INTERNAL_SERVER_ERROR"
    using byId_visible_or_not_found [OF s, of "[(''id'', JStr ''missing'')]" "''missing''"]
    by (simp add: sample_defs sample_ids)
  from 1 2 3 4 5 6 show ?thesis by (simp only: simp_thms)
qed

subsection \<open>The general listing\<close>

text \<open>
  C6. For an authenticated actor, \<open>all\<close> succeeds whatever the user table holds (no role
  is required). The notes it returns are exactly the notes of the table that the actor owns
  or that are public, each as often as the table has it, and they are ordered by
  \<open>createdAt\<close>, newest first.
\<close>

theorem all_own_or_public:
  assumes actor: "session c = Some s"
  shows "\<exists>rows. all c = Inr rows
      \<and> mset (map note_row rows)
          = mset (filter (\<lambda>n. userId n = session_user_id s \<or> isPublic n) (Note_table (db c)))
      \<and> set (map note_row rows)
          = {n \<in> set (Note_table (db c)). userId n = session_user_id s \<or> isPublic n}
      \<and> sorted_wrt (\<lambda>a b. createdAt b \<le> createdAt a) (map note_row rows)"
proof -
  let ?own_or_public = "filter (\<lambda>n. userId n = session_user_id s \<or> isPublic n) (Note_table (db c))"
  let ?rows = "map (with_user [''id'', ''name'', ''role'', ''image''] (db c))
                 (orderBy_desc_createdAt (db c) ?own_or_public)"
  have run: "all c = Inr ?rows"
    using actor by (simp add: all_def protectedProcedure_def)
  have notes_of: "map note_row ?rows = orderBy_desc_createdAt (db c) ?own_or_public"
    by (rule note_row_with_user)
  have m: "mset (map note_row ?rows) = mset ?own_or_public"
    by (simp only: notes_of mset_orderBy_desc_createdAt)
  have "set (map note_row ?rows) = set ?own_or_public"
    using m by (rule mset_eq_setD)
  then have st: "set (map note_row ?rows)
      = {n \<in> set (Note_table (db c)). userId n = session_user_id s \<or> isPublic n}"
    by simp
  have srt: "sorted_wrt (\<lambda>a b. createdAt b \<le> createdAt a) (map note_row ?rows)"
    by (simp only: notes_of newest_first_orderBy_desc_createdAt)
  from run m st srt show ?thesis by blast
qed

text \<open>Bob sees Alice's public note and his own, the newer one first.\<close>

theorem all_own_or_public_witness:
  "all (as_user ''u-bob'')
     = Inr [\<lparr>note_row = note_a2,
             owner = Some [(''id'', JStr ''u-alice''), (''name'', JStr ''Alice''),
                           (''role'', JStr ''user''), (''image'', JNull)]\<rparr>,
            \<lparr>note_row = note_b1,
             owner = Some [(''id'', JStr ''u-bob''), (''name'', JStr ''Bob''),
                           (''role'', JStr ''user''), (''image'', JStr ''bob.png'')]\<rparr>]
   \<and> mset [note_a2, note_b1]
       = mset (filter (\<lambda>n. userId n = ''u-bob'' \<or> isPublic n) [note_a1, note_a2, note_b1])
   \<and> sorted_wrt (\<lambda>a b. createdAt b \<le> createdAt a) [note_a2, note_b1]"
proof -
  have s: "session (as_user ''u-bob'') = Some \<lparr>session_user_id = ''u-bob''\<rparr>"
    by (simp add: as_user_def)
  have run: "all (as_user ''u-bob'')
     = Inr [\<lparr>note_row = note_a2,
             owner = Some [(''id'', JStr ''u-alice''), (''name'', JStr ''Alice''),
                           (''role'', JStr ''user''), (''image'', JNull)]\<rparr>,
            \<lparr>note_row = note_b1,
             owner = Some [(''id'', JStr ''u-bob''), (''name'', JStr ''Bob''),
                           (''role'', JStr ''user''), (''image'', JStr ''bob.png'')]\<rparr>]"
    by (simp add: all_def protectedProcedure_def orderBy_desc_createdAt_def with_user_def
          select_columns_def sample_defs less_eq_prod_def)
  have tbl: "Note_table (db (as_user ''u-bob'')) = [note_a1, note_a2, note_b1]"
    by (simp add: as_user_def sample_db_def)
  from all_own_or_public [OF s] run tbl show ?thesis
    by simp
qed

subsection \<open>The privileged listing\<close>

text \<open>
  C5 (as amended). When the actor's role in the user table is \<open>admin\<close>, \<open>adminAll\<close>
  returns every note of the table, private ones included, newest first. Under \<open>user\<close>
  each note carries the columns \<open>id\<close>, \<open>name\<close>, \<open>email\<close>, \<open>role\<close> and \<open>image\<close> of
  its owner's row, and no other key: the owner's email is part of the annotation.
\<close>

theorem adminAll_every_note_with_owner:
  assumes actor: "session c = Some s"
    and admin: "map_option user_role
                  (find (\<lambda>u. user_id u = session_user_id s) (user_table (db c)))
                = Some ''admin''"
  shows "\<exists>rows. adminAll c = Inr rows
      \<and> mset (map note_row rows) = mset (Note_table (db c))
      \<and> sorted_wrt (\<lambda>a b. createdAt b \<le> createdAt a) (map note_row rows)
      \<and> (\<forall>r \<in> set rows. \<forall>w.
            find (\<lambda>u. user_id u = userId (note_row r)) (user_table (db c)) = Some w \<longrightarrow>
            owner r = Some [(''id'', JStr (user_id w)), (''name'', JStr (user_name w)),
                            (''email'', JStr (user_email w)), (''role'', JStr (user_role w)),
                            (''image'', case user_image w of None \<Rightarrow> JNull | Some p \<Rightarrow> JStr p)])
      \<and> (\<forall>r \<in> set rows. \<forall>kvs. owner r = Some kvs \<longrightarrow>
            map fst kvs = [''id'', ''name'', ''email'', ''role'', ''image''])"
proof -
  let ?rows = "map (with_user [''id'', ''name'', ''email'', ''role'', ''image''] (db c))
                 (orderBy_desc_createdAt (db c) (Note_table (db c)))"
  have run: "adminAll c = Inr ?rows"
    using admin by (simp add: adminAll_def requireRole_admin [OF actor])
  have notes_of: "map note_row ?rows = orderBy_desc_createdAt (db c) (Note_table (db c))"
    by (rule note_row_with_user)
  have m: "mset (map note_row ?rows) = mset (Note_table (db c))"
    by (simp only: notes_of mset_orderBy_desc_createdAt)
  have srt: "sorted_wrt (\<lambda>a b. createdAt b \<le> createdAt a) (map note_row ?rows)"
    by (simp only: notes_of newest_first_orderBy_desc_createdAt)
  have ann: "\<forall>r \<in> set ?rows. \<forall>w.
            find (\<lambda>u. user_id u = userId (note_row r)) (user_table (db c)) = Some w \<longrightarrow>
            owner r = Some [(''id'', JStr (user_id w)), (''name'', JStr (user_name w)),
                            (''email'', JStr (user_email w)), (''role'', JStr (user_role w)),
                            (''image'', case user_image w of None \<Rightarrow> JNull | Some p \<Rightarrow> JStr p)]"
    by (auto simp: with_user_def select_columns_def)
  have keys: "\<forall>r \<in> set ?rows. \<forall>kvs. owner r = Some kvs \<longrightarrow>
            map fst kvs = [''id'', ''name'', ''email'', ''role'', ''image'']"
    by (auto simp: with_user_def select_columns_def)
  from run m srt ann keys show ?thesis by blast
qed

text \<open>Carol, an administrator, lists the three notes of the sample database.\<close>

theorem adminAll_every_note_with_owner_witness:
  "adminAll (as_user ''u-carol'')
     = Inr [\<lparr>note_row = note_a2,
             owner = Some [(''id'', JStr ''u-alice''), (''name'', JStr ''Alice''),
                           (''email'', JStr ''alice@example.com''),
                           (''role'', JStr ''user''), (''image'', JNull)]\<rparr>,
            \<lparr>note_row = note_b1,
             owner = Some [(''id'', JStr ''u-bob''), (''name'', JStr ''Bob''),
                           (''email'', JStr ''bob@example.com''),
                           (''role'', JStr ''user''), (''image'', JStr ''bob.png'')]\<rparr>,
            \<lparr>note_row = note_a1,
             owner = Some [(''id'', JStr ''u-alice''), (''name'', JStr ''Alice''),
                           (''email'', JStr ''alice@example.com''),
                           (''role'', JStr ''user''), (''image'', JNull)]\<rparr>]
   \<and> mset [note_a2, note_b1, note_a1] = mset [note_a1, note_a2, note_b1]
   \<and> sorted_wrt (\<lambda>a b. createdAt b \<le> createdAt a) [note_a2, note_b1, note_a1]"
proof -
  have s: "session (as_user ''u-carol'') = Some \<lparr>session_user_id = ''u-carol''\<rparr>"
    by (simp add: as_user_def)
  have a: "map_option user_role
             (find (\<lambda>u. user_id u = session_user_id \<lparr>session_user_id = ''u-carol''\<rparr>)
                (user_table (db (as_user ''u-carol''))))
           = Some ''admin''"
    by (simp add: sample_defs)
  have run: "adminAll (as_user ''u-carol'')
     = Inr [\<lparr>note_row = note_a2,
             owner = Some [(''id'', JStr ''u-alice''), (''name'', JStr ''Alice''),
                           (''email'', JStr ''alice@example.com''),
                           (''role'', JStr ''user''), (''image'', JNull)]\<rparr>,
            \<lparr>note_row = note_b1,
             owner = Some [(''id'', JStr ''u-bob''), (''name'', JStr ''Bob''),
                           (''email'', JStr ''bob@example.com''),
                           (''role'', JStr ''user''), (''image'', JStr ''bob.png'')]\<rparr>,
            \<lparr>note_row = note_a1,
             owner = Some [(''id'', JStr ''u-alice''), (''name'', JStr ''Alice''),
                           (''email'', JStr ''alice@example.com''),
                           (''role'', JStr ''user''), (''image'', JNull)]\<rparr>]"
    by (simp add: adminAll_def requireRole_def protectedProcedure_def orderBy_desc_createdAt_def
          with_user_def select_columns_def sample_defs less_eq_prod_def)
  have tbl: "Note_table (db (as_user ''u-carol'')) = [note_a1, note_a2, note_b1]"
    by (simp add: as_user_def sample_db_def)
  from adminAll_every_note_with_owner [OF s a] run tbl show ?thesis
    by simp
qed

text \<open>
  C5 as first stated fails: in Carol's listing the annotation of Alice's note has the key
  \<open>email\<close>, with Alice's address, so its keys are not \<open>id\<close>, \<open>name\<close>, \<open>role\<close>,
  \<open>image\<close> alone.
\<close>

theorem adminAll_owner_email_counterexample:
  "adminAll (as_user ''u-carol'')
     = Inr [\<lparr>note_row = note_a2,
             owner = Some [(''id'', JStr ''u-alice''), (''name'', JStr ''Alice''),
                           (''email'', JStr ''alice@example.com''),
                           (''role'', JStr ''user''), (''image'', JNull)]\<rparr>,
            \<lparr>note_row = note_b1,
             owner = Some [(''id'', JStr ''u-bob''), (''name'', JStr ''Bob''),
                           (''email'', JStr ''bob@example.com''),
                           (''role'', JStr ''user''), (''image'', JStr ''bob.png'')]\<rparr>,
            \<lparr>note_row = note_a1,
             owner = Some [(''id'', JStr ''u-alice''), (''name'', JStr ''Alice''),
                           (''email'', JStr ''alice@example.com''),
                           (''role'', JStr ''user''), (''image'', JNull)]\<rparr>]
   \<and> map_of [(''id'', JStr ''u-alice''), (''name'', JStr ''Alice''),
              (''email'', JStr ''alice@example.com''),
              (''role'', JStr ''user''), (''image'', JNull)] ''email''
       = Some (JStr (user_email alice))
   \<and> map fst [(''id'', JStr ''u-alice''), (''name'', JStr ''Alice''),
              (''email'', JStr ''alice@example.com''),
              (''role'', JStr ''user''), (''image'', JNull)]
       \<noteq> [''id'', ''name'', ''role'', ''image'']"
  by (simp add: adminAll_def requireRole_def protectedProcedure_def orderBy_desc_createdAt_def
        with_user_def select_columns_def sample_defs less_eq_prod_def)

subsection \<open>The privileged delete\<close>




subsection \<open>Validation of a new note\<close>

lemma CreateNoteSchema_typed:
  assumes "map_of kvs ''title'' = Some (JStr t)"
    and "map_of kvs ''content'' = Some (JStr b)"
    and "map_of kvs ''isPublic'' = map_option JBool p"
  shows "CreateNoteSchema (JObj kvs) =
     (if t = [] \<or> 256 < length t \<or> b = [] then None
      else Some \<lparr>in_title = t, in_content = b, in_isPublic = p\<rparr>)"
  using assms by (cases p) (auto simp: CreateNoteSchema_def Suc_le_eq)

text \<open>
  C8. Let an authenticated actor call \<open>create\<close> with a title and a content that are
  strings and with \<open>isPublic\<close> absent or a boolean. The call fails with \<open>BAD_REQUEST\<close>
  (the validation error) exactly when the title is empty, or longer than 256 characters, or
  the content is empty, and then the database is as before. Otherwise it appends one note
  with the given title and content, the actor as owner, \<open>isPublic\<close> as given (false when
  absent), and returns that note.
\<close>

theorem create_validation:
  assumes actor: "session c = Some s"
    and title_key: "map_of kvs ''title'' = Some (JStr t)"
    and content_key: "map_of kvs ''content'' = Some (JStr b)"
    and isPublic_key: "map_of kvs ''isPublic'' = map_option JBool p"
  shows "(fst (create c e (JObj kvs)) = Inl BAD_REQUEST \<longleftrightarrow>
            t = [] \<or> 256 < length t \<or> b = [])
       \<and> (t = [] \<or> 256 < length t \<or> b = [] \<longrightarrow>
            create c e (JObj kvs) = (Inl BAD_REQUEST, db c))
       \<and> (\<not> (t = [] \<or> 256 < length t \<or> b = []) \<longrightarrow>
            create c e (JObj kvs) =
              (Inr [\<lparr>note_id = random_uuid e, title = t, content = b,
                     userId = session_user_id s,
                     isPublic = (case p of None \<Rightarrow> False | Some v \<Rightarrow> v),
                     createdAt = now e, updatedAt = Some (now e)\<rparr>],
               (db c)\<lparr>Note_table := Note_table (db c) @
                 [\<lparr>note_id = random_uuid e, title = t, content = b,
                    userId = session_user_id s,
                    isPublic = (case p of None \<Rightarrow> False | Some v \<Rightarrow> v),
                    createdAt = now e, updatedAt = Some (now e)\<rparr>]\<rparr>))"
proof (cases "t = [] \<or> 256 < length t \<or> b = []")
  case True
  then have "CreateNoteSchema (JObj kvs) = None"
    by (simp only: CreateNoteSchema_typed [OF title_key content_key isPublic_key] if_True)
  then have "create c e (JObj kvs) = (Inl BAD_REQUEST, db c)"
    using actor by (simp add: create_def protectedProcedure_def)
  with True show ?thesis by simp
next
  case False
  then have "CreateNoteSchema (JObj kvs) = Some \<lparr>in_title = t, in_content = b, in_isPublic = p\<rparr>"
    by (simp only: CreateNoteSchema_typed [OF title_key content_key isPublic_key] if_False)
  then have "create c e (JObj kvs) =
              (Inr [\<lparr>note_id = random_uuid e, title = t, content = b,
                     userId = session_user_id s,
                     isPublic = (case p of None \<Rightarrow> False | Some v \<Rightarrow> v),
                     createdAt = now e, updatedAt = Some (now e)\<rparr>],
               (db c)\<lparr>Note_table := Note_table (db c) @
                 [\<lparr>note_id = random_uuid e, title = t, content = b,
                    userId = session_user_id s,
                    isPublic = (case p of None \<Rightarrow> False | Some v \<Rightarrow> v),
                    createdAt = now e, updatedAt = Some (now e)\<rparr>]\<rparr>)"
    using actor by (simp add: create_def protectedProcedure_def Let_def)
  with False show ?thesis by simp
qed

text \<open>
  An empty title, an empty content and a title of 257 characters are rejected; a title of
  256 characters is accepted and the note is stored for Alice.
\<close>

theorem create_validation_witness:
  "create (as_user ''u-alice'') sample_env (JObj [(''title'', JStr ''''), (''content'', JStr ''x'')])
     = (Inl BAD_REQUEST, sample_db)
   \<and> create (as_user ''u-alice'') sample_env (JObj [(''title'', JStr ''t''), (''content'', JStr '''')])
     = (Inl BAD_REQUEST, sample_db)
   \<and> create (as_user ''u-alice'') sample_env
       (JObj [(''title'', JStr (replicate 257 CHR ''a'')), (''content'', JStr ''x'')])
     = (Inl BAD_REQUEST, sample_db)
   \<and> create (as_user ''u-alice'') sample_env
       (JObj [(''title'', JStr (replicate 256 CHR ''a'')), (''content'', JStr ''x''),
              (''isPublic'', JBool True)])
     = (Inr [\<lparr>note_id = id4, title = replicate 256 CHR ''a'', content = ''x'',
               userId = ''u-alice'', isPublic = True, createdAt = 40, updatedAt = Some 40\<rparr>],
        sample_db\<lparr>Note_table := [note_a1, note_a2, note_b1,
          \<lparr>note_id = id4, title = replicate 256 CHR ''a'', content = ''x'',
               userId = ''u-alice'', isPublic = True, createdAt = 40, updatedAt = Some 40\<rparr>]\<rparr>)"
proof -
  have a: "session (as_user ''u-alice'') = Some \<lparr>session_user_id = ''u-alice''\<rparr>"
    by (simp add: as_user_def)
  have 1: "create (as_user ''u-alice'') sample_env
             (JObj [(''title'', JStr ''''), (''content'', JStr ''x'')])
           = (Inl BAD_REQUEST, sample_db)"
    using create_validation [OF a, of "[(''title'', JStr ''''), (''content'', JStr ''x'')]"
        "''''" "''x''" None sample_env]
    by (simp add: as_user_def)
  have 2: "create (as_user ''u-alice'') sample_env
             (JObj [(''title'', JStr ''t''), (''content'', JStr '''')])
           = (Inl BAD_REQUEST, sample_db)"
    using create_validation [OF a, of "[(''title'', JStr ''t''), (''content'', JStr '''')]"
        "''t''" "''''" None sample_env]
    by (simp add: as_user_def)
  have 3: "create (as_user ''u-alice'') sample_env
       (JObj [(''title'', JStr (replicate 257 CHR ''a'')), (''content'', JStr ''x'')])
     = (Inl BAD_REQUEST, sample_db)"
    using create_validation [OF a,
        of "[(''title'', JStr (replicate 257 CHR ''a'')), (''content'', JStr ''x'')]"
        "replicate 257 CHR ''a''" "''x''" None sample_env]
    by (simp add: as_user_def)
  have 4: "create (as_user ''u-alice'') sample_env
       (JObj [(''title'', JStr (replicate 256 CHR ''a'')), (''content'', JStr ''x''),
              (''isPublic'', JBool True)])
     = (Inr [\<lparr>note_id = id4, title = replicate 256 CHR ''a'', content = ''x'',
               userId = ''u-alice'', isPublic = True, createdAt = 40, updatedAt = Some 40\<rparr>],
        sample_db\<lparr>Note_table := [note_a1, note_a2, note_b1,
          \<lparr>note_id = id4, title = replicate 256 CHR ''a'', content = ''x'',
               userId = ''u-alice'', isPublic = True, createdAt = 40, updatedAt = Some 40\<rparr>]\<rparr>)"
    using create_validation [OF a,
        of "[(''title'', JStr (replicate 256 CHR ''a'')), (''content'', JStr ''x''),
              (''isPublic'', JBool True)]"
        "replicate 256 CHR ''a''" "''x''" "Some True" sample_env]
    by (simp add: as_user_def sample_db_def sample_env_def)
  from 1 2 3 4 show ?thesis by (simp only: simp_thms)
qed

subsection \<open>What an update changes\<close>

lemma note_id_set_data: "note_id (set_data e d n) = note_id n"
  by (simp add: set_data_def)

lemma returning_updated_rows:
  "map (set_data e d) (filter (\<lambda>n. note_id n = u) rows)
   = filter (\<lambda>n. note_id n = u) (map (\<lambda>n. if note_id n = u then set_data e d n else n) rows)"
  by (induction rows) (simp_all add: note_id_set_data)

lemma update_success:
  assumes ok: "update c e inp = (Inr rows, d')"
  shows "\<exists>s i dat u n. session c = Some s \<and> update_input inp = Some (i, dat)
      \<and> uuid_in (db c) i = Some u
      \<and> find (\<lambda>n. note_id n = u) (Note_table (db c)) = Some n
      \<and> userId n = session_user_id s
      \<and> update_takes_sql (db c)
      \<and> rows = map (set_data e dat) (filter (\<lambda>n. note_id n = u) (Note_table (db c)))
      \<and> d' = (db c)\<lparr>Note_table :=
                 map (\<lambda>n. if note_id n = u then set_data e dat n else n) (Note_table (db c))\<rparr>"
proof (cases "session c")
  case None
  with ok show ?thesis by (simp add: update_def protectedProcedure_def)
next
  case (Some s)
  show ?thesis
  proof (cases "update_input inp")
    case None
    with ok Some show ?thesis by (simp add: update_def protectedProcedure_def)
  next
    case parsed: (Some idat)
    obtain i dat where idat: "idat = (i, dat)" by (cases idat)
    show ?thesis
    proof (cases "uuid_in (db c) i")
      case None
      with ok Some parsed idat show ?thesis by (simp add: update_def protectedProcedure_def)
    next
      case denotes: (Some u)
      show ?thesis
      proof (cases "find (\<lambda>n. note_id n = u) (Note_table (db c))")
        case None
        with ok Some parsed idat denotes show ?thesis
          by (simp add: update_def protectedProcedure_def)
      next
        case found: (Some n)
        with ok Some parsed idat denotes show ?thesis
          by (cases "userId n = session_user_id s")
             (auto simp: update_def protectedProcedure_def split: if_splits)
      qed
    qed
  qed
qed

text \<open>
  Under a release of the query builder that does not take the SQL value of the update
  function, no update succeeds: the calls that pass every check fail at the write.
\<close>

lemma update_needs_release:
  assumes "\<not> update_takes_sql (db c)"
  shows "update c e inp \<noteq> (Inr rows, d')"
proof
  assume "update c e inp = (Inr rows, d')"
  from update_success [OF this] have "update_takes_sql (db c)" by blast
  with assms show False by simp
qed

lemma update_refused_by_release:
  "update ((as_user ''u-alice'')\<lparr>db := sample_db\<lparr>update_takes_sql := False\<rparr>\<rparr>) sample_env
     (JObj [(''id'', JStr id1), (''data'', JObj [(''title'', JStr ''Journal'')])])
   = (Inl INTERNAL_SERVER_ERROR, sample_db\<lparr>update_takes_sql := False\<rparr>)"
  by (simp add: update_def protectedProcedure_def update_input_def UpdateNoteSchema_def
        sample_defs sample_ids)

text \<open>
  C9. When \<open>update\<close> succeeds, its input parsed to a string \<open>i\<close> and data \<open>dat\<close>, the
  string denotes a uuid \<open>u\<close>, and the database after the call differs from the one before
  it in the note table only, which matches the table before it row by row: every row keeps
  its \<open>id\<close>, \<open>userId\<close> and \<open>createdAt\<close>; a row with another identifier is untouched; in a
  row with identifier \<open>u\<close> each of \<open>title\<close>, \<open>content\<close> and \<open>isPublic\<close> takes the supplied
  value when \<open>dat\<close> supplies one and keeps its previous value otherwise, and \<open>updatedAt\<close>
  is set to the current time. The call returns the updated rows. An update succeeds only
  under a release of the query builder that takes the SQL value of the update function.
\<close>

theorem update_frame:
  assumes ok: "update c e inp = (Inr rows, d')"
  shows "\<exists>i dat u. update_input inp = Some (i, dat)
      \<and> uuid_in (db c) i = Some u
      \<and> update_takes_sql (db c)
      \<and> d' = (db c)\<lparr>Note_table := Note_table d'\<rparr>
      \<and> list_all2
           (\<lambda>old new.
              note_id new = note_id old \<and> userId new = userId old
              \<and> createdAt new = createdAt old
              \<and> (note_id old \<noteq> u \<longrightarrow> new = old)
              \<and> (note_id old = u \<longrightarrow>
                   (case up_title dat of None \<Rightarrow> title new = title old
                                        | Some t \<Rightarrow> title new = t)
                 \<and> (case up_content dat of None \<Rightarrow> content new = content old
                                          | Some t \<Rightarrow> content new = t)
                 \<and> (case up_isPublic dat of None \<Rightarrow> isPublic new = isPublic old
                                           | Some v \<Rightarrow> isPublic new = v)
                 \<and> updatedAt new = Some (now e)))
           (Note_table (db c)) (Note_table d')
      \<and> rows = filter (\<lambda>n. note_id n = u) (Note_table d')"
proof -
  from update_success [OF ok] obtain i dat u where
    parsed: "update_input inp = Some (i, dat)"
    and denotes: "uuid_in (db c) i = Some u"
    and release: "update_takes_sql (db c)"
    and rows: "rows = map (set_data e dat) (filter (\<lambda>n. note_id n = u) (Note_table (db c)))"
    and d': "d' = (db c)\<lparr>Note_table :=
                 map (\<lambda>n. if note_id n = u then set_data e dat n else n) (Note_table (db c))\<rparr>"
    by blast
  have rest: "d' = (db c)\<lparr>Note_table := Note_table d'\<rparr>"
    by (simp add: d')
  have frame: "list_all2
           (\<lambda>old new.
              note_id new = note_id old \<and> userId new = userId old
              \<and> createdAt new = createdAt old
              \<and> (note_id old \<noteq> u \<longrightarrow> new = old)
              \<and> (note_id old = u \<longrightarrow>
                   (case up_title dat of None \<Rightarrow> title new = title old
                                        | Some t \<Rightarrow> title new = t)
                 \<and> (case up_content dat of None \<Rightarrow> content new = content old
                                          | Some t \<Rightarrow> content new = t)
                 \<and> (case up_isPublic dat of None \<Rightarrow> isPublic new = isPublic old
                                           | Some v \<Rightarrow> isPublic new = v)
                 \<and> updatedAt new = Some (now e)))
           (Note_table (db c)) (Note_table d')"
    unfolding d'
    by (simp add: list_all2_map2 list_all2_same set_data_def split: option.split)
  have returned: "rows = filter (\<lambda>n. note_id n = u) (Note_table d')"
    by (simp add: rows d' returning_updated_rows)
  from parsed denotes release rest frame returned show ?thesis by blast
qed

text \<open>
  Alice renames her private note, addressing it by the upper-case spelling of its
  identifier: only its title and \<open>updatedAt\<close> change.
\<close>

theorem update_frame_witness:
  "update (as_user ''u-alice'') sample_env
     (JObj [(''id'', JStr ID1), (''data'', JObj [(''title'', JStr ''Journal'')])])
   = (Inr [note_a1\<lparr>title := ''Journal'', updatedAt := Some 40\<rparr>],
      sample_db\<lparr>Note_table :=
        [note_a1\<lparr>title := ''Journal'', updatedAt := Some 40\<rparr>, note_a2, note_b1]\<rparr>)
   \<and> list_all2
        (\<lambda>old new. note_id new = note_id old \<and> userId new = userId old
           \<and> createdAt new = createdAt old \<and> content new = content old
           \<and> isPublic new = isPublic old)
        [note_a1, note_a2, note_b1]
        [note_a1\<lparr>title := ''Journal'', updatedAt := Some 40\<rparr>, note_a2, note_b1]"
proof -
  let ?inp = "JObj [(''id'', JStr ID1), (''data'', JObj [(''title'', JStr ''Journal'')])]"
  let ?new = "note_a1\<lparr>title := ''Journal'', updatedAt := Some 40\<rparr>"
  have run: "update (as_user ''u-alice'') sample_env ?inp
     = (Inr [?new], sample_db\<lparr>Note_table := [?new, note_a2, note_b1]\<rparr>)"
    by (simp add: update_def protectedProcedure_def update_input_def UpdateNoteSchema_def
          set_data_def sample_defs sample_ids)
  have parsed: "update_input ?inp
     = Some (ID1, \<lparr>up_title = Some ''Journal'', up_content = None, up_isPublic = None\<rparr>)"
    by (simp add: update_input_def UpdateNoteSchema_def)
  have denotes: "uuid_in (db (as_user ''u-alice'')) ID1 = Some (note_id note_a1)"
    by (simp add: sample_defs sample_ids)
  have tbl: "Note_table (db (as_user ''u-alice'')) = [note_a1, note_a2, note_b1]"
    by (simp add: as_user_def sample_db_def)
  from update_frame [OF run] parsed denotes tbl
  have "list_all2
        (\<lambda>old new. note_id new = note_id old \<and> userId new = userId old
           \<and> createdAt new = createdAt old \<and> content new = content old
           \<and> isPublic new = isPublic old)
        [note_a1, note_a2, note_b1] [?new, note_a2, note_b1]"
    by simp
  with run show ?thesis by (simp only: simp_thms)
qed

subsection \<open>A refused mutation writes nothing\<close>

text \<open>
  C10. When \<open>update\<close>, \<open>delete\<close> or \<open>adminDelete\<close> fails with \<open>NOT_FOUND\<close> or
  \<open>FORBIDDEN\<close>, the database after the call is the database before it: each handler
  throws before its only write.
\<close>

theorem failed_mutation_no_write:
  assumes kind: "err = NOT_FOUND \<or> err = FORBIDDEN"
  shows "(fst (update c e inp) = Inl err \<longrightarrow> snd (update c e inp) = db c)
       \<and> (fst (delete c inp) = Inl err \<longrightarrow> snd (delete c inp) = db c)
       \<and> (fst (adminDelete c inp) = Inl err \<longrightarrow> snd (adminDelete c inp) = db c)"
proof (intro conjI impI)
  assume "fst (update c e inp) = Inl err"
  then show "snd (update c e inp) = db c"
    by (auto simp: update_def split: sum.splits option.splits if_splits)
next
  assume "fst (delete c inp) = Inl err"
  then show "snd (delete c inp) = db c"
    by (auto simp: delete_def split: sum.splits option.splits if_splits)
next
  assume "fst (adminDelete c inp) = Inl err"
  then show "snd (adminDelete c inp) = db c"
    by (auto simp: adminDelete_def split: sum.splits option.splits if_splits)
qed

text \<open>
  Four refused calls on the sample database, with either error: each leaves it as it is.
\<close>

theorem failed_mutation_no_write_witness:
  "fst (update (as_user ''u-bob'') sample_env
          (JObj [(''id'', JStr id1), (''data'', JObj [(''title'', JStr ''x'')])]))
     = Inl FORBIDDEN
   \<and> snd (update (as_user ''u-bob'') sample_env
          (JObj [(''id'', JStr id1), (''data'', JObj [(''title'', JStr ''x'')])]))
     = sample_db
   \<and> fst (delete (as_user ''u-bob'') (JStr id9)) = Inl NOT_FOUND
   \<and> snd (delete (as_user ''u-bob'') (JStr id9)) = sample_db
   \<and> fst (adminDelete (as_user ''u-bob'') (JStr id1)) = Inl FORBIDDEN
   \<and> snd (adminDelete (as_user ''u-bob'') (JStr id1)) = sample_db
   \<and> fst (adminDelete (as_user ''u-carol'') (JStr id9)) = Inl NOT_FOUND
   \<and> snd (adminDelete (as_user ''u-carol'') (JStr id9)) = sample_db"
proof -
  let ?upd = "JObj [(''id'', JStr id1), (''data'', JObj [(''title'', JStr ''x'')])]"
  have d: "db (as_user ''u-bob'') = sample_db" "db (as_user ''u-carol'') = sample_db"
    by (simp_all add: as_user_def)
  have u: "fst (update (as_user ''u-bob'') sample_env ?upd) = Inl FORBIDDEN"
    by (simp add: update_def protectedProcedure_def update_input_def UpdateNoteSchema_def
          sample_defs sample_ids)
  have dl: "fst (delete (as_user ''u-bob'') (JStr id9)) = Inl NOT_FOUND"
    by (simp add: delete_def protectedProcedure_def sample_defs sample_ids)
  have ad: "fst (adminDelete (as_user ''u-bob'') (JStr id1)) = Inl FORBIDDEN"
    by (simp add: adminDelete_def requireRole_def protectedProcedure_def sample_defs sample_ids)
  have am: "fst (adminDelete (as_user ''u-carol'') (JStr id9)) = Inl NOT_FOUND"
    by (simp add: adminDelete_def requireRole_def protectedProcedure_def sample_defs sample_ids)
  have u': "snd (update (as_user ''u-bob'') sample_env ?upd) = sample_db"
    using failed_mutation_no_write [of FORBIDDEN "as_user ''u-bob''" sample_env ?upd] u d
    by simp
  have dl': "snd (delete (as_user ''u-bob'') (JStr id9)) = sample_db"
    using failed_mutation_no_write [of NOT_FOUND "as_user ''u-bob''" _ "JStr id9"] dl d
    by simp
  have ad': "snd (adminDelete (as_user ''u-bob'') (JStr id1)) = sample_db"
    using failed_mutation_no_write [of FORBIDDEN "as_user ''u-bob''" _ "JStr id1"] ad d
    by simp
  have am': "snd (adminDelete (as_user ''u-carol'') (JStr id9)) = sample_db"
    using failed_mutation_no_write [of NOT_FOUND "as_user ''u-carol''" _ "JStr id9"] am d
    by simp
  from u u' dl dl' ad ad' am am' show ?thesis by (simp only: simp_thms)
qed

end
